theory Spec2Isabelle
  imports Complex_Main "HOL-Library.Multiset"
begin

section \<open>The betting market service: data model\<close>

text \<open>
  The model follows \<^verbatim>\<open>backend/services/betting_market/main.py\<close> and the tables of
  \<^verbatim>\<open>backend/shared/models.py\<close>. A table is the list of its rows. Python's
  \<^verbatim>\<open>Decimal\<close> and the \<^verbatim>\<open>float\<close> values derived from it are exact rationals:
  the context precision of \<^verbatim>\<open>Decimal\<close>, the scale of the \<^verbatim>\<open>DECIMAL\<close> columns, the
  width of the \<^verbatim>\<open>String\<close> columns, foreign keys and binary floating point rounding
  are not part of the model. A request reads the clock once (\<open>now\<close>) and receives the
  fresh primary key of the row it inserts (\<open>new_id\<close>) as an argument.
\<close>

type_synonym uuid = nat
type_synonym datetime = nat
type_synonym decimal = rat

text \<open>The result of \<^verbatim>\<open>uuid.UUID(s)\<close>: a \<^verbatim>\<open>ValueError\<close> or an identifier.\<close>

datatype raw_uuid = Malformed | UUID uuid

record market =
  m_id :: uuid
  creator_clerk_id :: string
  m_status :: string
  resolved_at :: "datetime option"
  resolution_value :: "string option"
  total_volume :: decimal
  participant_count :: int

record outcome =
  o_id :: uuid
  o_market_id :: uuid
  outcome_text :: string
  current_odds :: "decimal option"
  total_backed :: decimal
  is_winner :: "bool option"

record position =
  p_id :: uuid
  p_market_id :: uuid
  outcome_id :: uuid
  clerk_user_id :: string
  user_profile_id :: uuid
  position_type :: string
  stake :: decimal
  odds :: decimal
  potential_payout :: decimal
  p_status :: string
  created_at :: datetime
  settled_at :: "datetime option"

text \<open>
  The relational store. \<open>profiles\<close> maps \<^verbatim>\<open>UserProfile.clerk_user_id\<close> (unique) to
  \<^verbatim>\<open>UserProfile.id\<close>.
\<close>

record db =
  markets :: "market list"
  outcomes :: "outcome list"
  positions :: "position list"
  profiles :: "(string \<times> uuid) list"

text \<open>
  Exceptions raised inside an endpoint, and the HTTP error the endpoint's handlers turn
  them into. Every endpoint ends with
  \<^verbatim>\<open>except ValueError: raise HTTPException(400, ...)\<close> and
  \<^verbatim>\<open>except Exception as e: raise HTTPException(500, f"...: {str(e)}")\<close>; an
  \<^verbatim>\<open>HTTPException\<close> raised in the body is an \<^verbatim>\<open>Exception\<close> and is caught by the
  second handler. \<open>cause\<close> is the exception whose text the detail of a 500 quotes.
\<close>

datatype exn = HTTPException nat string | ValueError

record http_error =
  status_code :: nat
  detail :: string
  cause :: "exn option"

section \<open>Odds engine\<close>

text \<open>Python's \<^verbatim>\<open>round(x, 2)\<close>: to the nearest hundredth, a tie to the even one.\<close>

definition round_half_even :: "rat \<Rightarrow> int" where
  "round_half_even x =
     (let f = \<lfloor>x\<rfloor>; r = x - of_int f
      in if r < 1 / 2 then f
         else if 1 / 2 < r then f + 1
         else if even f then f else f + 1)"

definition round2 :: "rat \<Rightarrow> rat" where
  "round2 x = of_int (round_half_even (x * 100)) / 100"

text \<open>
  \<^verbatim>\<open>update_market_odds\<close>: every outcome of the market with \<^verbatim>\<open>total_backed > 0\<close>
  gets new odds; the others are not written.
\<close>

definition update_outcome_odds :: "outcome \<Rightarrow> outcome" where
  "update_outcome_odds outcome =
     (if 0 < total_backed outcome then
        let implied_probability = min (19 / 20) (total_backed outcome / 100);
            new_odds = 1 / max (1 / 20) implied_probability
        in outcome\<lparr>current_odds := Some (round2 new_odds)\<rparr>
      else outcome)"

definition update_market_odds :: "uuid \<Rightarrow> db \<Rightarrow> db" where
  "update_market_odds market_id d =
     d\<lparr>outcomes :=
         map (\<lambda>outcome. if o_market_id outcome = market_id
                         then update_outcome_odds outcome else outcome)
           (outcomes d)\<rparr>"

section \<open>Position ledger\<close>

text \<open>\<^verbatim>\<open>user_has_positions_in_market\<close>: a count over the position table.\<close>

definition user_has_positions_in_market :: "string \<Rightarrow> uuid \<Rightarrow> db \<Rightarrow> bool" where
  "user_has_positions_in_market user_id market_id d =
     (0 < length (filter (\<lambda>p. clerk_user_id p = user_id \<and> p_market_id p = market_id)
                    (positions d)))"

record position_data =
  pd_outcome_id :: raw_uuid
  pd_stake :: decimal
  pd_odds :: decimal
  pd_position_type :: string

record position_response =
  resp_id :: uuid
  resp_potential_payout :: decimal

text \<open>
  The body of \<^verbatim>\<open>place_position\<close>, inside its \<^verbatim>\<open>try\<close>. The session is made by
  \<^verbatim>\<open>sessionmaker(engine, class_=AsyncSession, expire_on_commit=False)\<close>, so it
  autoflushes: \<^verbatim>\<open>db.add(position)\<close> comes before the query of
  \<^verbatim>\<open>user_has_positions_in_market\<close>, and that query sees the new row (\<open>d1\<close>).
\<close>

definition place_position_body ::
  "uuid \<Rightarrow> datetime \<Rightarrow> raw_uuid \<Rightarrow> position_data \<Rightarrow> string \<Rightarrow> db
     \<Rightarrow> exn + (db \<times> position_response)" where
  "place_position_body new_id now market_id position_data current_user d =
     (case market_id of
        Malformed \<Rightarrow> Inl ValueError
      | UUID market_uuid \<Rightarrow>
     (case pd_outcome_id position_data of
        Malformed \<Rightarrow> Inl ValueError
      | UUID outcome_uuid \<Rightarrow>
     (case find (\<lambda>m. m_id m = market_uuid) (markets d) of
        None \<Rightarrow> Inl (HTTPException 400 ''Market not available for trading'')
      | Some market \<Rightarrow>
     if m_status market \<noteq> ''open''
     then Inl (HTTPException 400 ''Market not available for trading'')
     else
     (case map_of (profiles d) current_user of
        None \<Rightarrow> Inl (HTTPException 404 ''User profile not found'')
      | Some profile_id \<Rightarrow>
     if pd_stake position_data \<le> 0
     then Inl (HTTPException 400 ''Stake must be positive'')
     else
       let potential =
             (if pd_position_type position_data = ''back''
              then pd_stake position_data * pd_odds position_data
              else pd_stake position_data * (pd_odds position_data - 1));
           new_position =
             \<lparr>p_id = new_id, p_market_id = market_uuid, outcome_id = outcome_uuid,
              clerk_user_id = current_user, user_profile_id = profile_id,
              position_type = pd_position_type position_data,
              stake = pd_stake position_data, odds = pd_odds position_data,
              potential_payout = potential, p_status = ''open'',
              created_at = now, settled_at = None\<rparr>;
           d1 = d\<lparr>positions := positions d @ [new_position]\<rparr>;
           market1 = market\<lparr>total_volume := total_volume market + pd_stake position_data\<rparr>;
           market2 =
             (if participant_count market1 = 0
                 \<or> \<not> user_has_positions_in_market current_user market_uuid d1
              then market1\<lparr>participant_count := participant_count market1 + 1\<rparr>
              else market1);
           d2 = d1\<lparr>markets :=
                   map (\<lambda>m. if m_id m = market_uuid then market2 else m) (markets d1)\<rparr>;
           d3 = d2\<lparr>outcomes :=
                   map (\<lambda>outcome. if o_id outcome = outcome_uuid
                          then outcome\<lparr>total_backed :=
                                 total_backed outcome + pd_stake position_data\<rparr>
                          else outcome)
                     (outcomes d2)\<rparr>;
           d4 = update_market_odds market_uuid d3
       in Inr (d4, \<lparr>resp_id = new_id, resp_potential_payout = potential\<rparr>)))))"

text \<open>
  The endpoint: the two \<^verbatim>\<open>except\<close> clauses, and the rollback of
  \<^verbatim>\<open>get_db_session\<close> when the request ends in an exception.
\<close>

definition place_position ::
  "uuid \<Rightarrow> datetime \<Rightarrow> raw_uuid \<Rightarrow> position_data \<Rightarrow> string \<Rightarrow> db
     \<Rightarrow> (http_error + position_response) \<times> db" where
  "place_position new_id now market_id position_data current_user d =
     (case place_position_body new_id now market_id position_data current_user d of
        Inl ValueError \<Rightarrow>
          (Inl \<lparr>status_code = 400, detail = ''Invalid ID format'', cause = None\<rparr>, d)
      | Inl e \<Rightarrow>
          (Inl \<lparr>status_code = 500, detail = ''Failed to place position: '',
                cause = Some e\<rparr>, d)
      | Inr (d', r) \<Rightarrow> (Inr r, d'))"

section \<open>Resolution and settlement\<close>

text \<open>
  \<^verbatim>\<open>process_market_payouts\<close>. \<^verbatim>\<open>scalar_one_or_none\<close> raises when more than one
  outcome of the market is flagged; the function catches every exception and prints it,
  so the store is then left as it was.
\<close>

definition process_market_payouts :: "datetime \<Rightarrow> uuid \<Rightarrow> db \<Rightarrow> db" where
  "process_market_payouts now market_id d =
     (case filter (\<lambda>outcome. o_market_id outcome = market_id \<and> is_winner outcome = Some True)
             (outcomes d) of
        [] \<Rightarrow> d
      | [winning_outcome] \<Rightarrow>
          d\<lparr>positions :=
              map (\<lambda>p. if p_market_id p = market_id
                           \<and> outcome_id p = o_id winning_outcome
                           \<and> position_type p = ''back''
                           \<and> p_status p = ''open''
                        then p\<lparr>p_status := ''settled'', settled_at := Some now\<rparr>
                        else p)
                (positions d)\<rparr>
      | _ \<Rightarrow> d)"

text \<open>
  \<^verbatim>\<open>resolution_data\<close>: \<open>None\<close> for a \<^verbatim>\<open>winning_outcome_id\<close> that is absent or
  falsy (\<^verbatim>\<open>if winning_outcome_id:\<close>).
\<close>

record resolution_data =
  rd_winning_outcome_id :: "raw_uuid option"
  rd_resolution_value :: "string option"

definition resolve_market_body ::
  "datetime \<Rightarrow> raw_uuid \<Rightarrow> resolution_data \<Rightarrow> string \<Rightarrow> db \<Rightarrow> exn + (db \<times> string option)" where
  "resolve_market_body now market_id resolution_data current_user d =
     (case market_id of
        Malformed \<Rightarrow> Inl ValueError
      | UUID market_uuid \<Rightarrow>
     (case find (\<lambda>m. m_id m = market_uuid) (markets d) of
        None \<Rightarrow> Inl (HTTPException 404 ''Market not found'')
      | Some market \<Rightarrow>
     if creator_clerk_id market \<noteq> current_user
     then Inl (HTTPException 403 ''Only market creator can resolve'')
     else if m_status market \<noteq> ''closed''
     then Inl (HTTPException 400 ''Market must be closed to resolve'')
     else
       let market1 = market\<lparr>m_status := ''resolved'', resolved_at := Some now,
                            resolution_value := rd_resolution_value resolution_data\<rparr>;
           d1 = d\<lparr>markets :=
                   map (\<lambda>m. if m_id m = market_uuid then market1 else m) (markets d)\<rparr>
       in (case rd_winning_outcome_id resolution_data of
             None \<Rightarrow>
               Inr (process_market_payouts now market_uuid d1,
                    rd_resolution_value resolution_data)
           | Some winning_outcome_id \<Rightarrow>
               let d2 = d1\<lparr>outcomes :=
                          map (\<lambda>outcome. if o_market_id outcome = market_uuid
                                 then outcome\<lparr>is_winner := Some False\<rparr> else outcome)
                            (outcomes d1)\<rparr>
               in (case winning_outcome_id of
                     Malformed \<Rightarrow> Inl ValueError
                   | UUID winning_uuid \<Rightarrow>
                       let d3 = d2\<lparr>outcomes :=
                                  map (\<lambda>outcome. if o_id outcome = winning_uuid
                                         then outcome\<lparr>is_winner := Some True\<rparr> else outcome)
                                    (outcomes d2)\<rparr>
                       in Inr (process_market_payouts now market_uuid d3,
                               rd_resolution_value resolution_data)))))"

definition resolve_market ::
  "datetime \<Rightarrow> raw_uuid \<Rightarrow> resolution_data \<Rightarrow> string \<Rightarrow> db
     \<Rightarrow> (http_error + string option) \<times> db" where
  "resolve_market now market_id resolution_data current_user d =
     (case resolve_market_body now market_id resolution_data current_user d of
        Inl ValueError \<Rightarrow>
          (Inl \<lparr>status_code = 400, detail = ''Invalid market ID format'', cause = None\<rparr>, d)
      | Inl e \<Rightarrow>
          (Inl \<lparr>status_code = 500, detail = ''Failed to resolve market: '',
                cause = Some e\<rparr>, d)
      | Inr (d', r) \<Rightarrow> (Inr r, d'))"

section \<open>Order book\<close>






section \<open>Market creation\<close>

text \<open>
  \<^verbatim>\<open>create_market\<close>, reduced to the columns above. The market row takes the column
  defaults (\<^verbatim>\<open>status='open'\<close>, \<^verbatim>\<open>total_volume=0\<close>, \<^verbatim>\<open>participant_count=0\<close>),
  every outcome starts at odds \<^verbatim>\<open>Decimal('2.0')\<close> with nothing backed and
  \<^verbatim>\<open>is_winner\<close> unset. \<open>outcome_ids i\<close> is the fresh key of the \<open>i\<close>-th outcome.
  The only handler of this endpoint is \<^verbatim>\<open>except Exception\<close>.
\<close>

definition create_market ::
  "uuid \<Rightarrow> (nat \<Rightarrow> uuid) \<Rightarrow> string list \<Rightarrow> string \<Rightarrow> db \<Rightarrow> (http_error + uuid) \<times> db" where
  "create_market new_id outcome_ids outcome_texts current_user d =
     (case map_of (profiles d) current_user of
        None \<Rightarrow>
          (Inl \<lparr>status_code = 500, detail = ''Failed to create market: '',
                cause = Some (HTTPException 404 ''User profile not found'')\<rparr>, d)
      | Some profile_id \<Rightarrow>
          let new_market =
                \<lparr>m_id = new_id, creator_clerk_id = current_user, m_status = ''open'',
                 resolved_at = None, resolution_value = None, total_volume = 0,
                 participant_count = 0\<rparr>;
              new_outcomes =
                map (\<lambda>(i, outcome_text').
                       \<lparr>o_id = outcome_ids i, o_market_id = new_id,
                        outcome_text = outcome_text', current_odds = Some 2,
                        total_backed = 0, is_winner = None\<rparr>)
                  (enumerate 0 outcome_texts)
          in (Inr new_id,
              d\<lparr>markets := markets d @ [new_market],
                outcomes := outcomes d @ new_outcomes\<rparr>))"

section \<open>Sequences of requests\<close>

text \<open>A \<^verbatim>\<open>place_position\<close> request with what the environment supplies to it.\<close>

record place_call =
  pc_new_id :: uuid
  pc_now :: datetime
  pc_market_id :: raw_uuid
  pc_position_data :: position_data
  pc_current_user :: string

text \<open>Requests served one after the other; the responses are collected in order.\<close>

fun place_positions ::
  "place_call list \<Rightarrow> db \<Rightarrow> (http_error + position_response) list \<times> db" where
  "place_positions [] d = ([], d)"
| "place_positions (c # cs) d =
     (case place_position (pc_new_id c) (pc_now c) (pc_market_id c) (pc_position_data c)
             (pc_current_user c) d of
        (r, d1) \<Rightarrow>
          (case place_positions cs d1 of (rs, d2) \<Rightarrow> (r # rs, d2)))"

section \<open>Example stores\<close>

text \<open>
  Two users with a profile; alice creates market 1 with the outcomes 10 and 11. No
  endpoint closes a market, so a closed market is the same store with the status
  column set from outside.
\<close>

definition example_profiles :: db where
  "example_profiles =
     \<lparr>markets = [], outcomes = [], positions = [],
      profiles = [(''alice'', 100), (''bob'', 101)]\<rparr>"

definition example_open :: db where
  "example_open =
     snd (create_market 1 (\<lambda>i. 10 + i) [''Yes'', ''No''] ''alice'' example_profiles)"

definition set_status :: "string \<Rightarrow> db \<Rightarrow> db" where
  "set_status s d = d\<lparr>markets := map (\<lambda>m. m\<lparr>m_status := s\<rparr>) (markets d)\<rparr>"

definition example_data :: "uuid \<Rightarrow> decimal \<Rightarrow> decimal \<Rightarrow> string \<Rightarrow> position_data" where
  "example_data outcome_uuid s x t =
     \<lparr>pd_outcome_id = UUID outcome_uuid, pd_stake = s, pd_odds = x, pd_position_type = t\<rparr>"

definition example_call :: "uuid \<Rightarrow> datetime \<Rightarrow> string \<Rightarrow> position_data \<Rightarrow> place_call" where
  "example_call new_id now user data =
     \<lparr>pc_new_id = new_id, pc_now = now, pc_market_id = UUID 1,
      pc_position_data = data, pc_current_user = user\<rparr>"

text \<open>
  Three positions on outcome 10: two backs at odds 2 (stakes 10 and 5) and a lay at
  odds 1.5 (stake 20); then a fourth, a back on outcome 11.
\<close>

definition example_calls :: "place_call list" where
  "example_calls =
     [example_call 1000 1 ''alice'' (example_data 10 10 2 ''back''),
      example_call 1001 2 ''bob'' (example_data 10 5 2 ''back''),
      example_call 1002 3 ''bob'' (example_data 10 20 (3 / 2) ''lay'')]"

definition example_three :: db where
  "example_three = snd (place_positions example_calls example_open)"

definition example_four :: db where
  "example_four =
     snd (place_position 1003 4 (UUID 1) (example_data 11 7 3 ''back'') ''alice''
            example_three)"

definition example_one :: db where
  "example_one =
     snd (place_position 1000 1 (UUID 1) (example_data 10 10 2 ''back'') ''alice''
            example_open)"


definition example_closed :: db where
  "example_closed = set_status ''closed'' example_four"

section \<open>Notions used in the statements\<close>

text \<open>
  The two \<^verbatim>\<open>UPDATE\<close> statements of \<^verbatim>\<open>resolve_market\<close> taken together, on one
  outcome row.
\<close>

definition flag_winner :: "uuid \<Rightarrow> uuid \<Rightarrow> outcome \<Rightarrow> outcome" where
  "flag_winner market_uuid winning_uuid outcome =
     (if o_id outcome = winning_uuid then outcome\<lparr>is_winner := Some True\<rparr>
      else if o_market_id outcome = market_uuid then outcome\<lparr>is_winner := Some False\<rparr>
      else outcome)"





section \<open>Properties of the position ledger\<close>

lemma place_position_success:
  assumes "find (\<lambda>m. m_id m = market_uuid) (markets d) = Some market"
    and "m_status market = ''open''"
    and "map_of (profiles d) current_user = Some profile_id"
    and "0 < pd_stake position_data"
    and "pd_outcome_id position_data = UUID outcome_uuid"
  shows "place_position new_id now (UUID market_uuid) position_data current_user d =
    (Inr \<lparr>resp_id = new_id,
          resp_potential_payout =
            (if pd_position_type position_data = ''back''
             then pd_stake position_data * pd_odds position_data
             else pd_stake position_data * (pd_odds position_data - 1))\<rparr>,
     \<lparr>markets =
        map (\<lambda>m. if m_id m = market_uuid
                 then market\<lparr>total_volume := total_volume market + pd_stake position_data,
                             participant_count :=
                               (if participant_count market = 0 then 1
                                else participant_count market)\<rparr>
                 else m) (markets d),
      outcomes =
        map (\<lambda>outcome. if o_market_id outcome = market_uuid
                        then update_outcome_odds
                          (if o_id outcome = outcome_uuid
                           then outcome\<lparr>total_backed :=
                                  total_backed outcome + pd_stake position_data\<rparr>
                           else outcome)
                        else if o_id outcome = outcome_uuid
                           then outcome\<lparr>total_backed :=
                                  total_backed outcome + pd_stake position_data\<rparr>
                           else outcome) (outcomes d),
      positions = positions d @
        [\<lparr>p_id = new_id, p_market_id = market_uuid, outcome_id = outcome_uuid,
          clerk_user_id = current_user, user_profile_id = profile_id,
          position_type = pd_position_type position_data,
          stake = pd_stake position_data, odds = pd_odds position_data,
          potential_payout =
            (if pd_position_type position_data = ''back''
             then pd_stake position_data * pd_odds position_data
             else pd_stake position_data * (pd_odds position_data - 1)),
          p_status = ''open'', created_at = now, settled_at = None\<rparr>],
      profiles = profiles d\<rparr>)"
  using assms
  by (auto simp add: place_position_def place_position_body_def Let_def
      user_has_positions_in_market_def update_market_odds_def o_def)

lemma place_position_error_unchanged:
  "fst (place_position new_id now market_id position_data current_user d) = Inl e
   \<Longrightarrow> snd (place_position new_id now market_id position_data current_user d) = d"
  by (auto simp add: place_position_def split: sum.splits exn.splits prod.splits)

lemma place_position_InrD:
  assumes "place_position new_id now market_id position_data current_user d = (Inr r, d')"
  shows "\<exists>market_uuid outcome_uuid market profile_id.
     market_id = UUID market_uuid \<and> pd_outcome_id position_data = UUID outcome_uuid
     \<and> find (\<lambda>m. m_id m = market_uuid) (markets d) = Some market
     \<and> m_status market = ''open''
     \<and> map_of (profiles d) current_user = Some profile_id
     \<and> 0 < pd_stake position_data"
  using assms
  by (auto simp add: place_position_def place_position_body_def Let_def
      split: sum.splits exn.splits prod.splits raw_uuid.splits option.splits if_splits)

lemma example_find:
  "find (\<lambda>m. m_id m = 1) (markets (set_status s example_open))
     = Some \<lparr>m_id = 1, creator_clerk_id = ''alice'', m_status = s,
              resolved_at = None, resolution_value = None, total_volume = 0,
              participant_count = 0\<rparr>"
  by (simp add: set_status_def example_open_def create_market_def example_profiles_def Let_def)

lemma set_status_open: "set_status ''open'' example_open = example_open"
  by (simp add: set_status_def example_open_def create_market_def example_profiles_def Let_def)

text \<open>
  C6. \<^verbatim>\<open>place_position\<close> answers with an error and leaves the store as it was
  (no position, no change to a market or an outcome) whenever the market is not open,
  whatever its status is instead, and whenever the stake is not positive.
\<close>

theorem place_position_rejected:
  assumes "find (\<lambda>m. m_id m = market_uuid) (markets d) = Some market"
    and "m_status market \<noteq> ''open'' \<or> pd_stake position_data \<le> 0"
  shows "\<exists>e. place_position new_id now (UUID market_uuid) position_data current_user d
           = (Inl e, d)"
  using assms
  by (auto simp add: place_position_def place_position_body_def Let_def
      split: sum.splits exn.splits prod.splits raw_uuid.splits option.splits if_splits)

theorem place_position_rejected_witness:
  "(\<exists>e. place_position 1000 5 (UUID 1) (example_data 10 50 2 ''back'') ''bob''
          (set_status ''closed'' example_open) = (Inl e, set_status ''closed'' example_open))
   \<and> (\<exists>e. place_position 1000 5 (UUID 1) (example_data 10 50 2 ''back'') ''bob''
          (set_status ''resolved'' example_open)
            = (Inl e, set_status ''resolved'' example_open))
   \<and> (\<exists>e. place_position 1000 5 (UUID 1) (example_data 10 50 2 ''back'') ''bob''
          (set_status ''cancelled'' example_open)
            = (Inl e, set_status ''cancelled'' example_open))
   \<and> (\<exists>e. place_position 1000 5 (UUID 1) (example_data 10 0 2 ''back'') ''bob''
          (set_status ''open'' example_open) = (Inl e, set_status ''open'' example_open))"
  using
    place_position_rejected [OF example_find [of "''closed''"],
      of "example_data 10 50 2 ''back''" 1000 5 "''bob''"]
    place_position_rejected [OF example_find [of "''resolved''"],
      of "example_data 10 50 2 ''back''" 1000 5 "''bob''"]
    place_position_rejected [OF example_find [of "''cancelled''"],
      of "example_data 10 50 2 ''back''" 1000 5 "''bob''"]
    place_position_rejected [OF example_find [of "''open''"],
      of "example_data 10 0 2 ''back''" 1000 5 "''bob''"]
  by (simp add: example_data_def)

section \<open>Sequences of placements\<close>

lemma find_map_replace:
  "find (\<lambda>x. m_id x = k) ms = Some market \<Longrightarrow> m_id market' = k \<Longrightarrow>
   find (\<lambda>x. m_id x = k) (map (\<lambda>x. if m_id x = k then market' else x) ms) = Some market'"
  by (induction ms) (auto split: if_splits)






section \<open>Properties of resolution\<close>

lemma flag_comp:
  "(\<lambda>outcome. if o_id outcome = winning_uuid
                then outcome\<lparr>is_winner := Some True\<rparr> else outcome)
   \<circ> (\<lambda>outcome. if o_market_id outcome = market_uuid
                then outcome\<lparr>is_winner := Some False\<rparr> else outcome)
   = flag_winner market_uuid winning_uuid"
  by (auto simp add: fun_eq_iff flag_winner_def)

lemma flag_winner_hit:
  "o_id outcome = winning_uuid \<Longrightarrow>
   flag_winner market_uuid winning_uuid outcome = outcome\<lparr>is_winner := Some True\<rparr>"
  by (simp add: flag_winner_def)

lemma flag_winner_miss:
  "o_id outcome \<noteq> winning_uuid \<Longrightarrow>
   \<not> (o_market_id (flag_winner market_uuid winning_uuid outcome) = market_uuid
      \<and> is_winner (flag_winner market_uuid winning_uuid outcome) = Some True)"
  by (simp add: flag_winner_def)

lemma resolve_market_success_winner:
  assumes "find (\<lambda>m. m_id m = market_uuid) (markets d) = Some market"
    and "creator_clerk_id market = current_user"
    and "m_status market = ''closed''"
    and "rd_winning_outcome_id resolution_data = Some (UUID winning_uuid)"
  shows "resolve_market now (UUID market_uuid) resolution_data current_user d =
    (Inr (rd_resolution_value resolution_data),
     process_market_payouts now market_uuid
       (d\<lparr>markets :=
            map (\<lambda>m. if m_id m = market_uuid
                     then market\<lparr>m_status := ''resolved'', resolved_at := Some now,
                            resolution_value := rd_resolution_value resolution_data\<rparr>
                     else m) (markets d),
          outcomes := map (flag_winner market_uuid winning_uuid) (outcomes d)\<rparr>))"
  using assms
  by (simp add: resolve_market_def resolve_market_body_def Let_def flag_comp)

lemma resolve_market_success_none:
  assumes "find (\<lambda>m. m_id m = market_uuid) (markets d) = Some market"
    and "creator_clerk_id market = current_user"
    and "m_status market = ''closed''"
    and "rd_winning_outcome_id resolution_data = None"
  shows "resolve_market now (UUID market_uuid) resolution_data current_user d =
    (Inr (rd_resolution_value resolution_data),
     process_market_payouts now market_uuid
       (d\<lparr>markets :=
            map (\<lambda>m. if m_id m = market_uuid
                     then market\<lparr>m_status := ''resolved'', resolved_at := Some now,
                            resolution_value := rd_resolution_value resolution_data\<rparr>
                     else m) (markets d)\<rparr>))"
  using assms
  by (simp add: resolve_market_def resolve_market_body_def Let_def)

lemma winners_none:
  "winning_uuid \<notin> o_id ` set os \<Longrightarrow>
   filter (\<lambda>outcome. o_market_id outcome = market_uuid \<and> is_winner outcome = Some True)
     (map (flag_winner market_uuid winning_uuid) os) = []"
  by (induction os) (auto simp add: flag_winner_miss)

lemma winners_one:
  "distinct (map o_id os) \<Longrightarrow> w \<in> set os \<Longrightarrow> o_market_id w = market_uuid \<Longrightarrow>
   filter (\<lambda>outcome. o_market_id outcome = market_uuid \<and> is_winner outcome = Some True)
     (map (flag_winner market_uuid (o_id w)) os) = [w\<lparr>is_winner := Some True\<rparr>]"
proof (induction os)
  case Nil
  then show ?case by simp
next
  case (Cons x xs)
  show ?case
  proof (cases "x = w")
    case True
    with Cons.prems have "o_id w \<notin> o_id ` set xs" by auto
    from winners_none [OF this, of market_uuid] True Cons.prems show ?thesis
      by (simp add: flag_winner_hit)
  next
    case False
    with Cons.prems have "w \<in> set xs" "o_id x \<noteq> o_id w" by auto
    with Cons show ?thesis by (simp add: flag_winner_miss)
  qed
qed


lemma process_market_payouts_outcomes:
  "outcomes (process_market_payouts now market_uuid d) = outcomes d"
  by (auto simp add: process_market_payouts_def split: list.splits)

lemma process_market_payouts_markets:
  "markets (process_market_payouts now market_uuid d) = markets d"
  by (auto simp add: process_market_payouts_def split: list.splits)


section \<open>Properties of the order book\<close>
















section \<open>The example stores, evaluated\<close>


lemma example_four_eq:
  "example_four =
     \<lparr>markets =
        [\<lparr>m_id = 1, creator_clerk_id = ''alice'', m_status = ''open'',
          resolved_at = None, resolution_value = None, total_volume = 42,
          participant_count = 1\<rparr>],
      outcomes =
        [\<lparr>o_id = 10, o_market_id = 1, outcome_text = ''Yes'',
          current_odds = Some (143 / 50), total_backed = 35, is_winner = None\<rparr>,
         \<lparr>o_id = 11, o_market_id = 1, outcome_text = ''No'',
          current_odds = Some (1429 / 100), total_backed = 7, is_winner = None\<rparr>],
      positions =
        [\<lparr>p_id = 1000, p_market_id = 1, outcome_id = 10, clerk_user_id = ''alice'',
          user_profile_id = 100, position_type = ''back'', stake = 10, odds = 2,
          potential_payout = 20, p_status = ''open'', created_at = 1, settled_at = None\<rparr>,
         \<lparr>p_id = 1001, p_market_id = 1, outcome_id = 10, clerk_user_id = ''bob'',
          user_profile_id = 101, position_type = ''back'', stake = 5, odds = 2,
          potential_payout = 10, p_status = ''open'', created_at = 2, settled_at = None\<rparr>,
         \<lparr>p_id = 1002, p_market_id = 1, outcome_id = 10, clerk_user_id = ''bob'',
          user_profile_id = 101, position_type = ''lay'', stake = 20, odds = 3 / 2,
          potential_payout = 10, p_status = ''open'', created_at = 3, settled_at = None\<rparr>,
         \<lparr>p_id = 1003, p_market_id = 1, outcome_id = 11, clerk_user_id = ''alice'',
          user_profile_id = 100, position_type = ''back'', stake = 7, odds = 3,
          potential_payout = 21, p_status = ''open'', created_at = 4, settled_at = None\<rparr>],
      profiles = [(''alice'', 100), (''bob'', 101)]\<rparr>"
  by code_simp

lemma example_open_eq:
  "example_open =
     \<lparr>markets =
        [\<lparr>m_id = 1, creator_clerk_id = ''alice'', m_status = ''open'',
          resolved_at = None, resolution_value = None, total_volume = 0,
          participant_count = 0\<rparr>],
      outcomes =
        [\<lparr>o_id = 10, o_market_id = 1, outcome_text = ''Yes'',
          current_odds = Some 2, total_backed = 0, is_winner = None\<rparr>,
         \<lparr>o_id = 11, o_market_id = 1, outcome_text = ''No'',
          current_odds = Some 2, total_backed = 0, is_winner = None\<rparr>],
      positions = [],
      profiles = [(''alice'', 100), (''bob'', 101)]\<rparr>"
  by code_simp


section \<open>Settlement\<close>


lemma example_closed_markets:
  "markets example_closed =
     [\<lparr>m_id = 1, creator_clerk_id = ''alice'', m_status = ''closed'',
          resolved_at = None, resolution_value = None, total_volume = 42,
          participant_count = 1\<rparr>]"
  by (simp add: example_closed_def example_four_eq set_status_def)

lemma example_closed_outcomes:
  "outcomes example_closed =
     [\<lparr>o_id = 10, o_market_id = 1, outcome_text = ''Yes'',
          current_odds = Some (143 / 50), total_backed = 35, is_winner = None\<rparr>,
      \<lparr>o_id = 11, o_market_id = 1, outcome_text = ''No'',
          current_odds = Some (1429 / 100), total_backed = 7, is_winner = None\<rparr>]"
  by (simp add: example_closed_def example_four_eq set_status_def)



section \<open>Winner flags, rejections of a resolution, participants\<close>

lemma update_outcome_odds_is_winner: "is_winner (update_outcome_odds outcome) = is_winner outcome"
  by (simp add: update_outcome_odds_def Let_def)

lemma update_market_odds_is_winner:
  "map is_winner (outcomes (update_market_odds market_uuid d)) = map is_winner (outcomes d)"
  by (simp add: update_market_odds_def o_def update_outcome_odds_is_winner)

lemma place_position_is_winner:
  "map is_winner (outcomes (snd (place_position new_id now market_id position_data
                                     current_user d))) = map is_winner (outcomes d)"
proof (cases "fst (place_position new_id now market_id position_data current_user d)")
  case (Inl e)
  then show ?thesis by (simp add: place_position_error_unchanged)
next
  case (Inr r)
  then have s: "place_position new_id now market_id position_data current_user d
      = (Inr r, snd (place_position new_id now market_id position_data current_user d))"
    by (metis prod.collapse)
  from place_position_InrD [OF s] obtain market_uuid outcome_uuid market profile_id where h:
    "market_id = UUID market_uuid" "pd_outcome_id position_data = UUID outcome_uuid"
    "find (\<lambda>m. m_id m = market_uuid) (markets d) = Some market"
    "m_status market = ''open''" "map_of (profiles d) current_user = Some profile_id"
    "0 < pd_stake position_data" by blast
  show ?thesis
    by (simp add: h(1) place_position_success [OF h(3,4,5,6,2)] o_def
        update_outcome_odds_is_winner)
qed

lemma create_market_outcomes:
  "take (length (outcomes d))
       (outcomes (snd (create_market new_id outcome_ids outcome_texts current_user d)))
     = outcomes d
   \<and> (\<forall>outcome \<in> set (drop (length (outcomes d))
         (outcomes (snd (create_market new_id outcome_ids outcome_texts current_user d)))).
        is_winner outcome = None)"
  by (auto simp add: create_market_def Let_def split: option.splits)

text \<open>
  C5, as amended. When a closed market is resolved by its creator with a
  \<^verbatim>\<open>winning_outcome_id\<close> that names an outcome of that market, the request succeeds
  and afterwards exactly one outcome of the market is flagged \<^verbatim>\<open>is_winner\<close>, the
  named one. With no \<^verbatim>\<open>winning_outcome_id\<close> the request succeeds as well and writes
  no outcome. Placing a position and recomputing odds never change a flag, and the
  outcomes a new market is created with are unflagged.
\<close>

theorem resolve_market_flags_winner:
  assumes "find (\<lambda>m. m_id m = market_uuid) (markets d) = Some market"
    and "creator_clerk_id market = current_user"
    and "m_status market = ''closed''"
  shows "(\<forall>w \<in> set (outcomes d).
            rd_winning_outcome_id resolution_data = Some (UUID (o_id w))
            \<and> o_market_id w = market_uuid \<and> distinct (map o_id (outcomes d))
          \<longrightarrow> fst (resolve_market now (UUID market_uuid) resolution_data current_user d)
                = Inr (rd_resolution_value resolution_data)
              \<and> filter (\<lambda>outcome. o_market_id outcome = market_uuid
                                   \<and> is_winner outcome = Some True)
                  (outcomes (snd (resolve_market now (UUID market_uuid) resolution_data
                                    current_user d)))
                = [w\<lparr>is_winner := Some True\<rparr>])
    \<and> (rd_winning_outcome_id resolution_data = None
          \<longrightarrow> fst (resolve_market now (UUID market_uuid) resolution_data current_user d)
                = Inr (rd_resolution_value resolution_data)
              \<and> outcomes (snd (resolve_market now (UUID market_uuid) resolution_data
                                 current_user d)) = outcomes d)
    \<and> map is_winner (outcomes (snd (place_position new_id now' market_id position_data
                                       user d'))) = map is_winner (outcomes d')
    \<and> map is_winner (outcomes (update_market_odds market_uuid' d')) = map is_winner (outcomes d')
    \<and> take (length (outcomes d'))
         (outcomes (snd (create_market new_id' outcome_ids outcome_texts user' d')))
       = outcomes d'
    \<and> (\<forall>outcome \<in> set (drop (length (outcomes d'))
           (outcomes (snd (create_market new_id' outcome_ids outcome_texts user' d')))).
          is_winner outcome = None)"
proof -
  have a: "\<forall>w \<in> set (outcomes d).
            rd_winning_outcome_id resolution_data = Some (UUID (o_id w))
            \<and> o_market_id w = market_uuid \<and> distinct (map o_id (outcomes d))
          \<longrightarrow> fst (resolve_market now (UUID market_uuid) resolution_data current_user d)
                = Inr (rd_resolution_value resolution_data)
              \<and> filter (\<lambda>outcome. o_market_id outcome = market_uuid
                                   \<and> is_winner outcome = Some True)
                  (outcomes (snd (resolve_market now (UUID market_uuid) resolution_data
                                    current_user d)))
                = [w\<lparr>is_winner := Some True\<rparr>]"
  proof (intro ballI impI)
    fix w
    assume w: "w \<in> set (outcomes d)"
      and h: "rd_winning_outcome_id resolution_data = Some (UUID (o_id w))
            \<and> o_market_id w = market_uuid \<and> distinct (map o_id (outcomes d))"
    from h winners_one [of "outcomes d" w market_uuid] w
    show "fst (resolve_market now (UUID market_uuid) resolution_data current_user d)
                = Inr (rd_resolution_value resolution_data)
              \<and> filter (\<lambda>outcome. o_market_id outcome = market_uuid
                                   \<and> is_winner outcome = Some True)
                  (outcomes (snd (resolve_market now (UUID market_uuid) resolution_data
                                    current_user d)))
                = [w\<lparr>is_winner := Some True\<rparr>]"
      by (simp add: resolve_market_success_winner [OF assms] process_market_payouts_outcomes)
  qed
  have b: "rd_winning_outcome_id resolution_data = None
          \<longrightarrow> fst (resolve_market now (UUID market_uuid) resolution_data current_user d)
                = Inr (rd_resolution_value resolution_data)
              \<and> outcomes (snd (resolve_market now (UUID market_uuid) resolution_data
                                 current_user d)) = outcomes d"
    by (simp add: resolve_market_success_none [OF assms] process_market_payouts_outcomes)
  from a b place_position_is_winner update_market_odds_is_winner create_market_outcomes
  show ?thesis by blast
qed

theorem resolve_market_flags_winner_witness:
  "filter (\<lambda>outcome. o_market_id outcome = 1 \<and> is_winner outcome = Some True)
     (outcomes (snd (resolve_market 9 (UUID 1)
        \<lparr>rd_winning_outcome_id = Some (UUID 10), rd_resolution_value = Some ''Yes''\<rparr>
        ''alice'' example_closed)))
   = [\<lparr>o_id = 10, o_market_id = 1, outcome_text = ''Yes'',
        current_odds = Some (143 / 50), total_backed = 35, is_winner = Some True\<rparr>]
   \<and> outcomes (snd (resolve_market 9 (UUID 1)
        \<lparr>rd_winning_outcome_id = None, rd_resolution_value = Some ''Yes''\<rparr>
        ''alice'' example_closed)) = outcomes example_closed"
proof -
  let ?w = "\<lparr>o_id = 10, o_market_id = 1, outcome_text = ''Yes'',
          current_odds = Some (143 / 50), total_backed = 35, is_winner = None\<rparr>"
  have f: "find (\<lambda>m. m_id m = 1) (markets example_closed)
     = Some \<lparr>m_id = 1, creator_clerk_id = ''alice'', m_status = ''closed'',
          resolved_at = None, resolution_value = None, total_volume = 42,
          participant_count = 1\<rparr>"
    by (simp add: example_closed_markets)
  have d: "distinct (map o_id (outcomes example_closed))" "?w \<in> set (outcomes example_closed)"
    by (simp_all add: example_closed_outcomes)
  note t1 = resolve_market_flags_winner [OF f, of "''alice''"
      "\<lparr>rd_winning_outcome_id = Some (UUID 10), rd_resolution_value = Some ''Yes''\<rparr>" 9,
      THEN conjunct1, THEN bspec, OF _ _ d(2)]
  note t2 = resolve_market_flags_winner [OF f, of "''alice''"
      "\<lparr>rd_winning_outcome_id = None, rd_resolution_value = Some ''Yes''\<rparr>" 9,
      THEN conjunct2, THEN conjunct1]
  from t1 t2 d(1) show ?thesis by simp
qed

theorem resolve_market_no_winner_counterexample:
  "fst (resolve_market 9 (UUID 1)
        \<lparr>rd_winning_outcome_id = None, rd_resolution_value = Some ''Yes''\<rparr>
        ''alice'' example_closed) = Inr (Some ''Yes'')
   \<and> map m_status (markets (snd (resolve_market 9 (UUID 1)
        \<lparr>rd_winning_outcome_id = None, rd_resolution_value = Some ''Yes''\<rparr>
        ''alice'' example_closed))) = [''resolved'']
   \<and> filter (\<lambda>outcome. o_market_id outcome = 1 \<and> is_winner outcome = Some True)
       (outcomes (snd (resolve_market 9 (UUID 1)
          \<lparr>rd_winning_outcome_id = None, rd_resolution_value = Some ''Yes''\<rparr>
          ''alice'' example_closed))) = []"
  by code_simp

lemma resolve_market_rejected:
  assumes "find (\<lambda>m. m_id m = market_uuid) (markets d) = Some market"
    and "m_status market \<noteq> ''closed'' \<or> creator_clerk_id market \<noteq> current_user"
  shows "\<exists>e. resolve_market now (UUID market_uuid) resolution_data current_user d
           = (Inl e, d) \<and> status_code e = 500"
  using assms
  by (auto simp add: resolve_market_def resolve_market_body_def)

text \<open>
  C7. A resolution by someone other than the creator, or of a market that is not
  closed, is answered with an error and the store is left as it was. The answer is a
  500 in both cases: the 403 and the 400 raised in the body are caught by the
  endpoint's \<^verbatim>\<open>except Exception\<close> and only quoted in the detail.
\<close>

theorem resolve_market_rejection_is_500:
  "resolve_market 9 (UUID 1)
      \<lparr>rd_winning_outcome_id = Some (UUID 10), rd_resolution_value = Some ''Yes''\<rparr>
      ''alice'' example_four
    = (Inl \<lparr>status_code = 500, detail = ''Failed to resolve market: '',
            cause = Some (HTTPException 400 ''Market must be closed to resolve'')\<rparr>,
       example_four)
   \<and> resolve_market 9 (UUID 1)
      \<lparr>rd_winning_outcome_id = Some (UUID 10), rd_resolution_value = Some ''Yes''\<rparr>
      ''bob'' example_closed
    = (Inl \<lparr>status_code = 500, detail = ''Failed to resolve market: '',
            cause = Some (HTTPException 403 ''Only market creator can resolve'')\<rparr>,
       example_closed)
   \<and> resolve_market 9 Malformed
      \<lparr>rd_winning_outcome_id = Some (UUID 10), rd_resolution_value = Some ''Yes''\<rparr>
      ''alice'' example_closed
    = (Inl \<lparr>status_code = 400, detail = ''Invalid market ID format'', cause = None\<rparr>,
       example_closed)"
  by code_simp

lemma place_position_participant_count:
  assumes "find (\<lambda>x. m_id x = k) (markets d) = Some market"
    and "place_position new_id now (UUID k) position_data current_user d = (Inr r, d')"
  shows "\<exists>market'. find (\<lambda>x. m_id x = k) (markets d') = Some market'
          \<and> participant_count market'
              = (if participant_count market = 0 then 1 else participant_count market)"
proof -
  from place_position_InrD [OF assms(2)] assms(1)
  obtain outcome_uuid profile_id where h:
    "pd_outcome_id position_data = UUID outcome_uuid" "m_status market = ''open''"
    "map_of (profiles d) current_user = Some profile_id" "0 < pd_stake position_data"
    by auto
  from find_Some_iff [THEN iffD1, OF assms(1)] have k: "m_id market = k" by auto
  from place_position_success [OF assms(1) h(2) h(3) h(4) h(1), of new_id now] assms(2)
  have "markets d' = map (\<lambda>m. if m_id m = k
                 then market\<lparr>total_volume := total_volume market + pd_stake position_data,
                             participant_count :=
                               (if participant_count market = 0 then 1
                                else participant_count market)\<rparr>
                 else m) (markets d)"
    by simp
  with find_map_replace [OF assms(1), of "market\<lparr>total_volume := total_volume market + pd_stake position_data,
                             participant_count :=
                               (if participant_count market = 0 then 1
                                else participant_count market)\<rparr>"] k
  show ?thesis by simp
qed

text \<open>
  C2. An accepted placement leaves \<^verbatim>\<open>participant_count\<close> at 1 when it was 0 and
  unchanged otherwise, whoever places: the new row is already in the session when
  \<^verbatim>\<open>user_has_positions_in_market\<close> counts. Bob's first position in a market where
  only alice has one is accepted and not counted.
\<close>

theorem second_participant_not_counted:
  "map participant_count (markets example_one) = [1]
   \<and> \<not> user_has_positions_in_market ''bob'' 1 example_one
   \<and> fst (place_position 1001 2 (UUID 1) (example_data 10 5 2 ''back'') ''bob'' example_one)
       = Inr \<lparr>resp_id = 1001, resp_potential_payout = 10\<rparr>
   \<and> map participant_count
       (markets (snd (place_position 1001 2 (UUID 1) (example_data 10 5 2 ''back'') ''bob''
                        example_one))) = [1]
   \<and> map clerk_user_id
       (positions (snd (place_position 1001 2 (UUID 1) (example_data 10 5 2 ''back'') ''bob''
                        example_one))) = [''alice'', ''bob'']"
  by code_simp

section \<open>Odds after a placement, payouts\<close>




lemma example_open_positions: "positions example_open = []"
  by (simp add: example_open_eq)











section \<open>The order book\<close>












end
